theory Spec2Isabelle
  imports Main
begin

section \<open>Planetarium booking models (planetarium/models.py)\<close>

subsection \<open>Exceptions and strings\<close>

text \<open>
  Exceptions are values. A \<open>ValidationError\<close> built from a dict carries that dict as an
  association list from field name to message, in insertion order. The others are
  the exceptions the code can meet on the way: a missing attribute in \<open>getattr\<close>, a
  related object that cannot be fetched, a constraint of the relational store, and an
  int that the store's driver cannot hold.
\<close>

datatype exn =
    ValidationError "(string \<times> string) list"
  | AttributeError string
  | DoesNotExist string
  | IntegrityError string
  | OverflowError string

text \<open>
  Python strings are written as byte strings in UTF-8; the only character of the source
  beyond ASCII is the arrow U+2192 of the range message, three bytes long.
\<close>

definition arrow :: string where
  "arrow = [CHR 0xE2, CHR 0x86, CHR 0x92]"

text \<open>\<open>str\<close> of a Python int, as an f-string renders it: decimal, with a minus sign.\<close>

definition digit :: "nat \<Rightarrow> char" where
  "digit n = ''0123456789'' ! (n mod 10)"

fun str_nat :: "nat \<Rightarrow> string" where
  "str_nat n = (if n < 10 then [digit n] else str_nat (n div 10) @ [digit n])"

declare str_nat.simps [simp del]

definition str_int :: "int \<Rightarrow> string" where
  "str_int i = (if i < 0 then CHR ''-'' # str_nat (nat (- i)) else str_nat (nat i))"

subsection \<open>PlanetariumDome\<close>

text \<open>
  \<^verbatim>\<open>
  class PlanetariumDome(models.Model):
      name = models.CharField(max_length=150)
      rows = models.PositiveIntegerField()
      seats_in_row = models.PositiveIntegerField()

      @property
      def capacity(self):
          return self.rows * self.seats_in_row
  \<close>
  The instance attributes are Python ints. \<open>capacity\<close> is a property: a function of the
  instance, evaluated at each read, with no field of its own.
\<close>

record PlanetariumDome =
  name :: string
  rows :: int
  seats_in_row :: int

definition capacity :: "PlanetariumDome \<Rightarrow> int" where
  "capacity self = rows self * seats_in_row self"

text \<open>
  \<open>getattr(planetarium_dome, dome_attr_name)\<close> for the integer attributes of a dome;
  any other name has no integer attribute to compare with.
\<close>

definition getattr :: "PlanetariumDome \<Rightarrow> string \<Rightarrow> int option" where
  "getattr planetarium_dome attr_name =
     (if attr_name = ''rows'' then Some (rows planetarium_dome)
      else if attr_name = ''seats_in_row'' then Some (seats_in_row planetarium_dome)
      else None)"

subsection \<open>Ticket.validate_ticket\<close>

text \<open>
  \<^verbatim>\<open>
  @staticmethod
  def validate_ticket(row, seat, planetarium_dome, error_to_raise):
      for ticket_attr_value, ticket_attr_name, dome_attr_name in [
          (row, "row", "rows"),
          (seat, "seat", "seats_in_row"),
      ]:
          count_attrs = getattr(planetarium_dome, dome_attr_name)
          if not (1 <= ticket_attr_value <= count_attrs):
              raise error_to_raise({
                  ticket_attr_name: (
                      f"{ticket_attr_name} number must be in range: "
                      f"(1, {dome_attr_name}) -> (1, {count_attrs})"
                  )
              })
  \<close>
  (the source has the arrow U+2192 where this comment writes \<open>->\<close>). The loop is a
  recursion over the list of triples; the first failing triple raises and ends it.
\<close>

definition range_message :: "string \<Rightarrow> string \<Rightarrow> int \<Rightarrow> string" where
  "range_message ticket_attr_name dome_attr_name count_attrs =
     ticket_attr_name @ '' number must be in range: '' @
     ''(1, '' @ dome_attr_name @ '') '' @ arrow @ '' (1, '' @ str_int count_attrs @ '')''"

fun validate_attrs ::
  "(int \<times> string \<times> string) list \<Rightarrow> PlanetariumDome \<Rightarrow>
   ((string \<times> string) list \<Rightarrow> exn) \<Rightarrow> exn + unit" where
  "validate_attrs [] planetarium_dome error_to_raise = Inr ()"
| "validate_attrs ((ticket_attr_value, ticket_attr_name, dome_attr_name) # rest)
     planetarium_dome error_to_raise =
     (case getattr planetarium_dome dome_attr_name of
        None \<Rightarrow> Inl (AttributeError dome_attr_name)
      | Some count_attrs \<Rightarrow>
          if \<not> (1 \<le> ticket_attr_value \<and> ticket_attr_value \<le> count_attrs)
          then Inl (error_to_raise
                 [(ticket_attr_name,
                   range_message ticket_attr_name dome_attr_name count_attrs)])
          else validate_attrs rest planetarium_dome error_to_raise)"

definition validate_ticket ::
  "int \<Rightarrow> int \<Rightarrow> PlanetariumDome \<Rightarrow> ((string \<times> string) list \<Rightarrow> exn) \<Rightarrow> exn + unit" where
  "validate_ticket row seat planetarium_dome error_to_raise =
     validate_attrs [(row, ''row'', ''rows''), (seat, ''seat'', ''seats_in_row'')]
       planetarium_dome error_to_raise"

subsection \<open>The other models and the relational store\<close>

text \<open>
  \<^verbatim>\<open>
  class AstronomyShow(models.Model):
      title = models.CharField(max_length=150)
      description = models.TextField(null=True, blank=True)
      image = models.ImageField(null=True, blank=True, upload_to=show_image_file_path)

  class ShowSession(models.Model):
      astronomy_show = models.ForeignKey(AstronomyShow, on_delete=models.CASCADE)
      planetarium_dome = models.ForeignKey(PlanetariumDome, related_name="show_sessions",
                                           on_delete=models.CASCADE)
      show_time = models.DateTimeField()

  class Reservation(models.Model):
      created_at = models.DateTimeField(auto_now_add=True)
      user = models.ForeignKey(User, on_delete=models.CASCADE)

  class Ticket(models.Model):
      row = models.IntegerField()
      seat = models.IntegerField()
      show_session = models.ForeignKey(ShowSession, related_name="tickets",
                                       on_delete=models.CASCADE)
      reservation = models.ForeignKey(Reservation, related_name="tickets",
                                      on_delete=models.CASCADE)
      class Meta:
          unique_together = ("show_session", "row", "seat")
  \<close>
  A foreign key is the primary key of the row it points to; a date and time is a string.
  A \<open>Ticket\<close> instance carries its primary key: \<open>None\<close> for an instance not saved yet,
  \<open>Some i\<close> for one loaded from the table or saved before.
\<close>

record AstronomyShow =
  title :: string
  description :: "string option"
  image :: "string option"

record ShowSession =
  astronomy_show :: nat
  planetarium_dome :: nat
  show_time :: string

record Reservation =
  created_at :: string
  user :: nat

record Ticket =
  pk :: "nat option"
  row :: int
  seat :: int
  show_session :: nat
  reservation :: nat

text \<open>
  Modelled from the spec: the relational store is not part of the repository; the
  models reach it through the framework. The spec gives its schema (section 6): one
  table per model, the rows keyed by primary key, the ticket rows carrying theirs.
\<close>

record db =
  astronomy_show_table :: "(nat \<times> AstronomyShow) list"
  planetarium_dome_table :: "(nat \<times> PlanetariumDome) list"
  show_session_table :: "(nat \<times> ShowSession) list"
  reservation_table :: "(nat \<times> Reservation) list"
  ticket_table :: "Ticket list"

definition empty_db :: db where
  "empty_db = \<lparr>astronomy_show_table = [], planetarium_dome_table = [],
     show_session_table = [], reservation_table = [], ticket_table = []\<rparr>"

subsection \<open>Ticket.clean\<close>

text \<open>
  \<^verbatim>\<open>
  def clean(self):
      Ticket.validate_ticket(
          self.row,
          self.seat,
          self.show_session.planetarium_dome,
          ValidationError,
      )
  \<close>
  \<open>self.show_session\<close> and \<open>.planetarium_dome\<close> fetch the related rows; a row that is
  not there raises the model's \<open>DoesNotExist\<close>.
\<close>

definition clean :: "Ticket \<Rightarrow> db \<Rightarrow> exn + unit" where
  "clean self s =
     (case map_of (show_session_table s) (show_session self) of
        None \<Rightarrow> Inl (DoesNotExist ''ShowSession'')
      | Some session \<Rightarrow>
          (case map_of (planetarium_dome_table s) (planetarium_dome session) of
             None \<Rightarrow> Inl (DoesNotExist ''PlanetariumDome'')
           | Some dome \<Rightarrow> validate_ticket (row self) (seat self) dome ValidationError))"

subsection \<open>Model.full_clean, as Ticket.save calls it\<close>

text \<open>
  Modelled from the spec: \<open>Model.clean_fields\<close> is the framework's and not in the
  repository. For a \<open>Ticket\<close> it checks that the two foreign keys point to rows that
  exist (the referential error of section 7 of the spec), one message per field.
\<close>

definition clean_fields :: "Ticket \<Rightarrow> db \<Rightarrow> (string \<times> string) list" where
  "clean_fields self s =
     (if map_of (show_session_table s) (show_session self) = None
      then [(''show_session'', ''show session instance with id '' @
               str_nat (show_session self) @ '' does not exist.'')]
      else []) @
     (if map_of (reservation_table s) (reservation self) = None
      then [(''reservation'', ''reservation instance with id '' @
               str_nat (reservation self) @ '' does not exist.'')]
      else [])"

text \<open>
  \<^verbatim>\<open>
  class Meta:
      unique_together = ("show_session", "row", "seat")
  \<close>
\<close>

definition unique_together :: "string list" where
  "unique_together = [''show_session'', ''row'', ''seat'']"

definition unique_together_key :: "Ticket \<Rightarrow> nat \<times> int \<times> int" where
  "unique_together_key t = (show_session t, row t, seat t)"

definition unique_error_message :: string where
  "unique_error_message = ''Ticket with this Show session, Row and Seat already exists.''"

text \<open>
  Modelled from the spec: \<open>Model.validate_unique\<close> is the framework's and not in the
  repository. The spec (section 4.1, step 3): the pair (row, seat) must not already be
  taken by another ticket in the same session. \<open>same_seat_rows\<close> are the stored rows
  that hold the key of \<open>self\<close> and are not the row of \<open>self\<close> itself; a hit is reported
  under the key \<open>__all__\<close>. The check is not run when one of the fields of
  \<open>unique_together\<close> already has an error.
\<close>

definition same_seat_rows :: "Ticket \<Rightarrow> Ticket list \<Rightarrow> Ticket list" where
  "same_seat_rows self ts =
     filter (\<lambda>t. unique_together_key t = unique_together_key self \<and>
                 (pk self = None \<or> pk t \<noteq> pk self)) ts"

definition validate_unique :: "string list \<Rightarrow> Ticket \<Rightarrow> db \<Rightarrow> (string \<times> string) list" where
  "validate_unique exclude self s =
     (if list_ex (\<lambda>field. field \<in> set exclude) unique_together then []
      else if same_seat_rows self (ticket_table s) \<noteq> []
      then [(''__all__'', unique_error_message)]
      else [])"

text \<open>
  Modelled from the spec: \<open>Model.full_clean\<close> is the framework's and not in the
  repository. The spec (section 4.1) gives the order: the range checks of \<open>clean\<close>, then
  the uniqueness check. The \<open>ValidationError\<close>s of \<open>clean_fields\<close>, \<open>clean\<close> and
  \<open>validate_unique\<close> are collected in one dict, raised when it is not empty; any other
  exception leaves at once.
\<close>

definition raise_if_errors :: "(string \<times> string) list \<Rightarrow> Ticket \<Rightarrow> db \<Rightarrow> exn + unit" where
  "raise_if_errors errors self s =
     (let errors' = errors @ validate_unique (map fst errors) self s
      in if errors' = [] then Inr () else Inl (ValidationError errors'))"

definition full_clean :: "Ticket \<Rightarrow> db \<Rightarrow> exn + unit" where
  "full_clean self s =
     (let errors = clean_fields self s
      in case clean self s of
           Inl (ValidationError e) \<Rightarrow> raise_if_errors (errors @ e) self s
         | Inl other \<Rightarrow> Inl other
         | Inr _ \<Rightarrow> raise_if_errors errors self s)"

subsection \<open>Ticket.save\<close>

text \<open>
  Modelled from the spec: \<open>Model.save\<close>, reached as \<open>super().save\<close>, is the framework's
  and not in the repository. It writes the row: an instance with the primary key of a
  stored row replaces that row, any other instance is inserted, under a new primary key
  when it has none. The ticket table has the unique constraint on
  \<open>(show_session_id, row, seat)\<close> (section 6 of the spec), so a write that would give two
  rows one key is refused with an \<open>IntegrityError\<close> and changes nothing.
\<close>

definition next_pk :: "Ticket list \<Rightarrow> nat" where
  "next_pk ts = Suc (fold (\<lambda>t m. case pk t of None \<Rightarrow> m | Some i \<Rightarrow> max i m) ts 0)"

definition Model_save :: "Ticket \<Rightarrow> db \<Rightarrow> (exn + Ticket) \<times> db" where
  "Model_save self s =
     (if same_seat_rows self (ticket_table s) \<noteq> []
      then (Inl (IntegrityError ''UNIQUE constraint failed''), s)
      else if pk self \<noteq> None \<and> pk self \<in> set (map pk (ticket_table s))
      then (Inr self,
            s\<lparr>ticket_table := map (\<lambda>t. if pk t = pk self then self else t) (ticket_table s)\<rparr>)
      else
        (let self' = (if pk self = None
                      then self\<lparr>pk := Some (next_pk (ticket_table s))\<rparr> else self)
         in (Inr self', s\<lparr>ticket_table := ticket_table s @ [self']\<rparr>)))"

text \<open>
  \<^verbatim>\<open>
  def save(self, *args, force_insert=False, force_update=False, using=None,
           update_fields=None):
      self.full_clean()
      return super(Ticket, self).save(force_insert, force_update, using, update_fields)
  \<close>
  with the arguments at their defaults. An exception of \<open>full_clean\<close> leaves \<open>save\<close>
  before \<open>super().save\<close> is reached.
\<close>

definition save :: "Ticket \<Rightarrow> db \<Rightarrow> (exn + Ticket) \<times> db" where
  "save self s =
     (case full_clean self s of
        Inl e \<Rightarrow> (Inl e, s)
      | Inr _ \<Rightarrow> Model_save self s)"

subsection \<open>Creating a dome\<close>

text \<open>
  The value range of a \<open>PositiveIntegerField\<close>, the type that models.py gives \<open>rows\<close>
  and \<open>seats_in_row\<close>: the integers from zero upwards. The field type is the framework's:
  it documents that 0 is accepted, and declares the column with the check
  \<open>column >= 0\<close>.
\<close>

definition PositiveIntegerField_check :: "int \<Rightarrow> bool" where
  "PositiveIntegerField_check v = (0 \<le> v)"

text \<open>
  Modelled from the spec: \<open>PlanetariumDome.objects.create\<close> and the store behind it are
  the framework's and not part of the repository; tests.py calls
  \<open>PlanetariumDome.objects.create(name="Best", rows=25, seats_in_row=25)\<close>. The spec
  (section 6) gives the table \<open>planetarium_dome(id, name, rows, seats_in_row)\<close>.
  \<open>PlanetariumDome\<close> does not override \<open>save\<close> and has no validator of its own, so the
  insert is guarded by the store alone, in this order:
  \<^item> an integer column holds a signed 64-bit value; the driver refuses to bind an int
    outside that range with an \<open>OverflowError\<close>, before any row is written;
  \<^item> each \<open>PositiveIntegerField\<close> column has its check \<open>column >= 0\<close>; a row that fails
    one is refused with an \<open>IntegrityError\<close> whose message names the column, the check
    of \<open>rows\<close> coming before that of \<open>seats_in_row\<close>;
  \<^item> otherwise the row is appended under a new primary key.
  A refused insert leaves the store as it was.
\<close>

definition store_integer :: "int \<Rightarrow> bool" where
  "store_integer v = (- (2 ^ 63) \<le> v \<and> v < 2 ^ 63)"

definition next_id :: "(nat \<times> 'a) list \<Rightarrow> nat" where
  "next_id table = Suc (fold (\<lambda>(i, _) m. max i m) table 0)"

definition PlanetariumDome_create :: "PlanetariumDome \<Rightarrow> db \<Rightarrow> (exn + nat) \<times> db" where
  "PlanetariumDome_create dome s =
     (if \<not> (store_integer (rows dome) \<and> store_integer (seats_in_row dome))
      then (Inl (OverflowError ''Python int too large to convert to SQLite INTEGER''), s)
      else if \<not> PositiveIntegerField_check (rows dome)
      then (Inl (IntegrityError ''CHECK constraint failed: rows''), s)
      else if \<not> PositiveIntegerField_check (seats_in_row dome)
      then (Inl (IntegrityError ''CHECK constraint failed: seats_in_row''), s)
      else (let i = next_id (planetarium_dome_table s)
            in (Inr i, s\<lparr>planetarium_dome_table := planetarium_dome_table s @ [(i, dome)]\<rparr>)))"

subsection \<open>Deleting: on_delete=models.CASCADE\<close>

text \<open>
  Modelled from the spec: the deletion itself is the framework's and the store's, not in
  the repository; models.py declares every foreign key with
  \<open>on_delete=models.CASCADE\<close>. The spec (sections 3 and 8): deleting a reservation or a
  show session deletes its tickets; deleting a show deletes its sessions and their
  tickets.
\<close>

definition delete_Reservation :: "nat \<Rightarrow> db \<Rightarrow> db" where
  "delete_Reservation i s =
     s\<lparr>ticket_table := filter (\<lambda>t. reservation t \<noteq> i) (ticket_table s),
       reservation_table := filter (\<lambda>(j, _). j \<noteq> i) (reservation_table s)\<rparr>"

definition delete_ShowSession :: "nat \<Rightarrow> db \<Rightarrow> db" where
  "delete_ShowSession i s =
     s\<lparr>ticket_table := filter (\<lambda>t. show_session t \<noteq> i) (ticket_table s),
       show_session_table := filter (\<lambda>(j, _). j \<noteq> i) (show_session_table s)\<rparr>"

definition show_sessions_of :: "nat \<Rightarrow> db \<Rightarrow> nat list" where
  "show_sessions_of i s =
     map fst (filter (\<lambda>(_, session). astronomy_show session = i) (show_session_table s))"

definition delete_AstronomyShow :: "nat \<Rightarrow> db \<Rightarrow> db" where
  "delete_AstronomyShow i s =
     (let s' = fold delete_ShowSession (show_sessions_of i s) s
      in s'\<lparr>astronomy_show_table := filter (\<lambda>(j, _). j \<noteq> i) (astronomy_show_table s')\<rparr>)"

subsection \<open>show_image_file_path\<close>

text \<open>
  \<open>os.path.splitext\<close> (the POSIX one): the extension starts at the last dot, if that dot
  comes after the last slash and some character between the two is not a dot.
  \<open>rfind\<close> is \<open>str.rfind\<close> for one character: the last index, or -1.
\<close>

definition rfind :: "string \<Rightarrow> char \<Rightarrow> int" where
  "rfind p c =
     (case filter (\<lambda>i. p ! i = c) (rev [0..<length p]) of
        [] \<Rightarrow> - 1
      | i # _ \<Rightarrow> int i)"

function splitext_loop :: "string \<Rightarrow> nat \<Rightarrow> nat \<Rightarrow> string \<times> string" where
  "splitext_loop p filenameIndex dotIndex =
     (if filenameIndex < dotIndex
      then (if p ! filenameIndex \<noteq> CHR ''.''
            then (take dotIndex p, drop dotIndex p)
            else splitext_loop p (filenameIndex + 1) dotIndex)
      else (p, []))"
  by pat_completeness auto
termination
  by (relation "measure (\<lambda>(p, filenameIndex, dotIndex). dotIndex - filenameIndex)") auto

declare splitext_loop.simps [simp del]

definition splitext :: "string \<Rightarrow> string \<times> string" where
  "splitext p =
     (let sepIndex = rfind p CHR ''/'';
          dotIndex = rfind p CHR ''.''
      in if dotIndex > sepIndex
         then splitext_loop p (nat (sepIndex + 1)) (nat dotIndex)
         else (p, []))"

text \<open>\<open>os.path.join\<close> of two components.\<close>

definition path_join :: "string \<Rightarrow> string \<Rightarrow> string" where
  "path_join a b =
     (if take 1 b = ''/'' then b
      else if a = [] \<or> last a = CHR ''/'' then a @ b
      else a @ ''/'' @ b)"

text \<open>
  \<^verbatim>\<open>
  def show_image_file_path(instance, filename):
      _, extension = os.path.splitext(filename)
      filename = f"{slugify(instance.title)}-{uuid.uuid4()}{extension}"
      return os.path.join("uploads/movies/", filename)
  \<close>
  \<open>slugify\<close> is the framework's function and \<open>uuid4\<close> the text of the identifier that
  \<open>uuid.uuid4()\<close> draws at this call; both are parameters.
\<close>

definition show_image_file_path ::
  "(string \<Rightarrow> string) \<Rightarrow> string \<Rightarrow> AstronomyShow \<Rightarrow> string \<Rightarrow> string" where
  "show_image_file_path slugify uuid4 instance filename =
     (let extension = snd (splitext filename);
          filename' = slugify (title instance) @ ''-'' @ uuid4 @ extension
      in path_join ''uploads/movies/'' filename')"

subsection \<open>Invariants of the ticket table\<close>

text \<open>
  \<open>seats_unique\<close>: no two stored tickets have the same \<open>(show_session, row, seat)\<close>.
  \<open>pks_ok\<close>: every stored ticket has a primary key and no two have the same.
\<close>

definition seats_unique :: "Ticket list \<Rightarrow> bool" where
  "seats_unique ts = distinct (map unique_together_key ts)"

definition pks_ok :: "Ticket list \<Rightarrow> bool" where
  "pks_ok ts = (distinct (map pk ts) \<and> None \<notin> set (map pk ts))"

subsection \<open>Sample data\<close>

text \<open>
  The dome and the show of tests.py (\<open>sample_show\<close>, \<open>sample_show_session\<close>), a second
  show, a session of each in the dome, two reservations and a ticket of each.
\<close>

definition sample_dome :: PlanetariumDome where
  "sample_dome = \<lparr>name = ''Best'', rows = 25, seats_in_row = 25\<rparr>"

definition sample_show :: AstronomyShow where
  "sample_show = \<lparr>title = ''Sample show'', description = Some ''Sample description'',
     image = None\<rparr>"

definition sample_session :: "nat \<Rightarrow> ShowSession" where
  "sample_session i = \<lparr>astronomy_show = i, planetarium_dome = 1,
     show_time = ''2025-07-07 13:00:00''\<rparr>"

definition sample_ticket :: Ticket where
  "sample_ticket = \<lparr>pk = Some 1, row = 25, seat = 25, show_session = 1, reservation = 1\<rparr>"

definition other_ticket :: Ticket where
  "other_ticket = \<lparr>pk = Some 2, row = 1, seat = 1, show_session = 2, reservation = 2\<rparr>"

definition sample_db :: db where
  "sample_db =
     \<lparr>astronomy_show_table = [(1, sample_show), (2, sample_show\<lparr>title := ''Show 2''\<rparr>)],
      planetarium_dome_table = [(1, sample_dome)],
      show_session_table = [(1, sample_session 1), (2, sample_session 2)],
      reservation_table = [(1, \<lparr>created_at = ''2025-07-01 10:00:00'', user = 1\<rparr>),
                           (2, \<lparr>created_at = ''2025-07-02 10:00:00'', user = 1\<rparr>)],
      ticket_table = [sample_ticket, other_ticket]\<rparr>"

text \<open>
  The sample store after the dome was rebuilt with 10 rows (its row in the dome table
  was updated): the stored tickets are as they were, \<open>sample_ticket\<close> in row 25.
\<close>

definition shrunk_db :: db where
  "shrunk_db = sample_db\<lparr>planetarium_dome_table := [(1, sample_dome\<lparr>rows := 10\<rparr>)]\<rparr>"

text \<open>
  The slug of the sample title, as the framework's \<open>slugify\<close> gives it; other titles are
  not needed.
\<close>

definition sample_slugify :: "string \<Rightarrow> string" where
  "sample_slugify t = (if t = ''Sample show'' then ''sample-show'' else [])"

section \<open>Properties\<close>

subsection \<open>Range validation\<close>

lemma validate_ticket_unfold:
  "validate_ticket r c d err =
     (if \<not> (1 \<le> r \<and> r \<le> rows d)
      then Inl (err [(''row'', range_message ''row'' ''rows'' (rows d))])
      else if \<not> (1 \<le> c \<and> c \<le> seats_in_row d)
      then Inl (err [(''seat'', range_message ''seat'' ''seats_in_row'' (seats_in_row d))])
      else Inr ())"
  by (simp add: validate_ticket_def getattr_def)

lemma range_message_row:
  "range_message ''row'' ''rows'' n =
     ''row number must be in range: (1, rows) '' @ arrow @ '' (1, '' @ str_int n @ '')''"
  by (simp add: range_message_def)

lemma range_message_seat:
  "range_message ''seat'' ''seats_in_row'' n =
     ''seat number must be in range: (1, seats_in_row) '' @ arrow @
     '' (1, '' @ str_int n @ '')''"
  by (simp add: range_message_def)

lemma str_int_25: "str_int 25 = ''25''"
  by (simp add: str_int_def str_nat.simps digit_def)

text \<open>
  C1. For a dome with \<open>rows = R\<close> and \<open>seats_in_row = S\<close> and any integers \<open>r\<close> (the row)
  and \<open>c\<close> (the seat), \<open>validate_ticket\<close> raises nothing exactly when \<open>1 \<le> r \<le> R\<close> and
  \<open>1 \<le> c \<le> S\<close>; row 0, row R+1, seat 0 and seat S+1 each raise, whatever the other
  coordinate is.
\<close>

theorem validate_ticket_accepts_iff:
  "(validate_ticket r c d err = Inr ()) =
     (1 \<le> r \<and> r \<le> rows d \<and> 1 \<le> c \<and> c \<le> seats_in_row d)
   \<and> validate_ticket 0 c d err \<noteq> Inr ()
   \<and> validate_ticket (rows d + 1) c d err \<noteq> Inr ()
   \<and> validate_ticket r 0 d err \<noteq> Inr ()
   \<and> validate_ticket r (seats_in_row d + 1) d err \<noteq> Inr ()"
  by (auto simp: validate_ticket_unfold)

theorem validate_ticket_accepts_iff_witness:
  "validate_ticket 25 25 sample_dome ValidationError = Inr ()
   \<and> validate_ticket 1 1 sample_dome ValidationError = Inr ()
   \<and> validate_ticket 26 1 sample_dome ValidationError \<noteq> Inr ()
   \<and> validate_ticket 0 1 sample_dome ValidationError \<noteq> Inr ()
   \<and> validate_ticket 1 26 sample_dome ValidationError \<noteq> Inr ()
   \<and> validate_ticket 1 0 sample_dome ValidationError \<noteq> Inr ()"
  using validate_ticket_accepts_iff [of 25 25 sample_dome ValidationError]
        validate_ticket_accepts_iff [of 1 1 sample_dome ValidationError]
        validate_ticket_accepts_iff [of 26 1 sample_dome ValidationError]
        validate_ticket_accepts_iff [of 1 26 sample_dome ValidationError]
  by (simp add: sample_dome_def)

text \<open>
  C9. When both coordinates are out of range, the error is the one of the row: its dict
  has the single key \<open>row\<close>, and the seat is not looked at (any other seat gives the same
  result).
\<close>

theorem both_out_of_range_reports_row:
  assumes "\<not> (1 \<le> r \<and> r \<le> rows d)" and "\<not> (1 \<le> c \<and> c \<le> seats_in_row d)"
  shows "validate_ticket r c d err =
           Inl (err [(''row'', ''row number must be in range: (1, rows) '' @ arrow @
                               '' (1, '' @ str_int (rows d) @ '')'')])
       \<and> validate_ticket r c d err = validate_ticket r c' d err"
  using assms(1) by (simp add: validate_ticket_unfold range_message_row)

theorem both_out_of_range_reports_row_witness:
  "\<not> (1 \<le> (0::int) \<and> 0 \<le> rows sample_dome)
   \<and> \<not> (1 \<le> (26::int) \<and> 26 \<le> seats_in_row sample_dome)
   \<and> validate_ticket 0 26 sample_dome ValidationError =
       Inl (ValidationError
         [(''row'', ''row number must be in range: (1, rows) '' @ arrow @ '' (1, 25)'')])"
proof -
  have h1: "\<not> (1 \<le> (0::int) \<and> 0 \<le> rows sample_dome)" by simp
  have h2: "\<not> (1 \<le> (26::int) \<and> 26 \<le> seats_in_row sample_dome)"
    by (simp add: sample_dome_def)
  have "rows sample_dome = 25" by (simp add: sample_dome_def)
  with both_out_of_range_reports_row [OF h1 h2, of ValidationError] h1 h2
  show ?thesis by (simp add: str_int_25)
qed

subsection \<open>Capacity\<close>

text \<open>
  C4. \<open>capacity\<close> is the product of the \<open>rows\<close> and \<open>seats_in_row\<close> the dome has when it
  is read: after an assignment to either field, or to both, the next read gives the
  product of the new values.
\<close>

theorem capacity_computed_on_read:
  "capacity d = rows d * seats_in_row d
   \<and> capacity (d\<lparr>rows := R\<rparr>) = R * seats_in_row d
   \<and> capacity (d\<lparr>seats_in_row := S\<rparr>) = rows d * S
   \<and> capacity (d\<lparr>rows := R, seats_in_row := S\<rparr>) = R * S"
  by (simp add: capacity_def)

lemma accepted_pairs:
  "{(r, c). validate_ticket r c d err = Inr ()} = {1..rows d} \<times> {1..seats_in_row d}"
  by (auto simp: validate_ticket_unfold)

text \<open>
  C10. For a dome whose \<open>rows\<close> and \<open>seats_in_row\<close> are values of a
  \<open>PositiveIntegerField\<close>, the pairs that \<open>validate_ticket\<close> accepts are as many as the
  capacity; with \<open>rows = 0\<close> or \<open>seats_in_row = 0\<close> there is none.
\<close>

theorem accepted_pairs_card_capacity:
  assumes "PositiveIntegerField_check (rows d)"
      and "PositiveIntegerField_check (seats_in_row d)"
  shows "int (card {(r, c). validate_ticket r c d err = Inr ()}) = capacity d
       \<and> (rows d = 0 \<or> seats_in_row d = 0 \<longrightarrow>
            {(r, c). validate_ticket r c d err = Inr ()} = {})"
  using assms
  by (auto simp: accepted_pairs capacity_def PositiveIntegerField_check_def)

theorem accepted_pairs_card_capacity_witness:
  "PositiveIntegerField_check (rows sample_dome)
   \<and> PositiveIntegerField_check (seats_in_row sample_dome)
   \<and> int (card {(r, c). validate_ticket r c sample_dome ValidationError = Inr ()}) = 625
   \<and> {(r, c). validate_ticket r c (sample_dome\<lparr>rows := 0\<rparr>) ValidationError = Inr ()} = {}"
proof -
  have h1: "PositiveIntegerField_check (rows sample_dome)"
    and h2: "PositiveIntegerField_check (seats_in_row sample_dome)"
    by (simp_all add: PositiveIntegerField_check_def sample_dome_def)
  have z1: "PositiveIntegerField_check (rows (sample_dome\<lparr>rows := 0\<rparr>))"
    and z2: "PositiveIntegerField_check (seats_in_row (sample_dome\<lparr>rows := 0\<rparr>))"
    by (simp_all add: PositiveIntegerField_check_def sample_dome_def)
  have "capacity sample_dome = 625" by (simp add: capacity_def sample_dome_def)
  with accepted_pairs_card_capacity [OF h1 h2, of ValidationError]
       accepted_pairs_card_capacity [OF z1 z2, of ValidationError] h1 h2
  show ?thesis by simp
qed

subsection \<open>Validation before the write\<close>

lemma clean_resolved:
  "map_of (show_session_table s) (show_session self) = Some session \<Longrightarrow>
   map_of (planetarium_dome_table s) (planetarium_dome session) = Some dome \<Longrightarrow>
   clean self s = validate_ticket (row self) (seat self) dome ValidationError"
  by (simp add: clean_def)

lemma clean_error_nonempty: "clean self s = Inl (ValidationError e) \<Longrightarrow> e \<noteq> []"
  by (auto simp: clean_def validate_ticket_unfold split: option.splits if_splits)

lemma clean_ok_session:
  "clean self s = Inr () \<Longrightarrow>
   \<exists>session. map_of (show_session_table s) (show_session self) = Some session"
  by (auto simp: clean_def split: option.splits)

lemma clean_depends_on_key:
  "unique_together_key t = unique_together_key self \<Longrightarrow> clean t s = clean self s"
  by (auto simp: clean_def unique_together_key_def split: option.splits)

lemma clean_fields_session:
  "map_of (show_session_table s) (show_session self) = Some session \<Longrightarrow>
   set (map fst (clean_fields self s)) \<subseteq> {''reservation''}"
  by (auto simp: clean_fields_def)

lemma validate_unique_after_range_error:
  "validate_ticket r c d ValidationError = Inl (ValidationError e) \<Longrightarrow>
   validate_unique (map fst (errs @ e)) self s = []"
  by (auto simp: validate_ticket_unfold validate_unique_def unique_together_def
        split: if_splits)

lemma validate_unique_hit:
  "set exclude \<subseteq> {''reservation''} \<Longrightarrow> same_seat_rows self (ticket_table s) \<noteq> [] \<Longrightarrow>
   validate_unique exclude self s = [(''__all__'', unique_error_message)]"
  by (auto simp: validate_unique_def unique_together_def)

lemma full_clean_range_error:
  assumes "map_of (show_session_table s) (show_session self) = Some session"
      and "map_of (planetarium_dome_table s) (planetarium_dome session) = Some dome"
      and "validate_ticket (row self) (seat self) dome ValidationError =
             Inl (ValidationError e)"
  shows "full_clean self s = Inl (ValidationError (clean_fields self s @ e))"
proof -
  have c: "clean self s = Inl (ValidationError e)"
    using clean_resolved [OF assms(1,2)] assms(3) by simp
  then have "e \<noteq> []" by (rule clean_error_nonempty)
  moreover have "validate_unique (map fst (clean_fields self s @ e)) self s = []"
    using assms(3) by (rule validate_unique_after_range_error)
  ultimately show ?thesis
    by (simp add: full_clean_def c raise_if_errors_def)
qed

lemma full_clean_duplicate:
  assumes "clean self s = Inr ()" and "same_seat_rows self (ticket_table s) \<noteq> []"
  shows "full_clean self s =
     Inl (ValidationError (clean_fields self s @ [(''__all__'', unique_error_message)]))"
proof -
  from assms(1) obtain session where
    "map_of (show_session_table s) (show_session self) = Some session"
    using clean_ok_session by blast
  then have "set (map fst (clean_fields self s)) \<subseteq> {''reservation''}"
    by (rule clean_fields_session)
  then have "validate_unique (map fst (clean_fields self s)) self s =
      [(''__all__'', unique_error_message)]"
    using assms(2) by (rule validate_unique_hit)
  then show ?thesis
    using assms(1) by (simp add: full_clean_def raise_if_errors_def)
qed

lemma full_clean_ok_no_duplicate:
  assumes "full_clean self s = Inr ()"
  shows "same_seat_rows self (ticket_table s) = []"
proof (rule ccontr)
  assume dup: "same_seat_rows self (ticket_table s) \<noteq> []"
  show False
  proof (cases "clean self s")
    case (Inl e)
    with assms show False
      by (cases e) (auto simp: full_clean_def raise_if_errors_def Let_def
          dest: clean_error_nonempty)
  next
    case (Inr u)
    then have "clean self s = Inr ()" by simp
    from full_clean_duplicate [OF this dup] assms show False by simp
  qed
qed

lemma full_clean_of_clean_error:
  "clean self s = Inl e \<Longrightarrow> \<exists>e'. full_clean self s = Inl e'"
  by (cases e) (auto simp: full_clean_def raise_if_errors_def Let_def
      dest: clean_error_nonempty)

lemma Model_save_refused:
  "same_seat_rows self (ticket_table s) \<noteq> [] \<Longrightarrow>
   Model_save self s = (Inl (IntegrityError ''UNIQUE constraint failed''), s)"
  by (simp add: Model_save_def)

lemma save_duplicate_unchanged:
  "same_seat_rows self (ticket_table s) \<noteq> [] \<Longrightarrow> \<exists>e. save self s = (Inl e, s)"
  by (cases "full_clean self s") (auto simp: save_def Model_save_refused)

lemma other_row_in_same_seat_rows:
  "t \<in> set ts \<Longrightarrow> unique_together_key t = unique_together_key self \<Longrightarrow>
   pk self = None \<or> pk t \<noteq> pk self \<Longrightarrow> same_seat_rows self ts \<noteq> []"
  by (auto simp: same_seat_rows_def filter_empty_conv)

lemma sample_db_lookups:
  "map_of (show_session_table sample_db) 1 = Some (sample_session 1)"
  "map_of (planetarium_dome_table sample_db) (planetarium_dome (sample_session 1)) =
     Some sample_dome"
  "map_of (reservation_table sample_db) 1 \<noteq> None"
  by (simp_all add: sample_db_def sample_session_def)

lemma sample_db_clean_fields:
  "show_session t = 1 \<Longrightarrow> reservation t = 1 \<Longrightarrow> clean_fields t sample_db = []"
  using sample_db_lookups by (simp add: clean_fields_def)

text \<open>
  C3. A ticket that fails range validation raises an error whose dict has one key, the
  field at fault, with the message
  \<open>"<field> number must be in range: (1, <dome attribute>) -> (1, <bound>)"\<close> (with the
  arrow U+2192): the row is checked first, the seat only when the row is in range. In
  \<open>full_clean\<close> the uniqueness of \<open>(show_session, row, seat)\<close> comes last: after a range
  error it is not reported, and a ticket in range whose seat is taken gets the
  uniqueness error.
\<close>

theorem range_error_names_field_in_order:
  "(\<not> (1 \<le> r \<and> r \<le> rows d) \<longrightarrow>
      validate_ticket r c d err =
        Inl (err [(''row'', ''row number must be in range: (1, rows) '' @ arrow @
                            '' (1, '' @ str_int (rows d) @ '')'')]))
   \<and> (1 \<le> r \<and> r \<le> rows d \<and> \<not> (1 \<le> c \<and> c \<le> seats_in_row d) \<longrightarrow>
      validate_ticket r c d err =
        Inl (err [(''seat'', ''seat number must be in range: (1, seats_in_row) '' @ arrow @
                             '' (1, '' @ str_int (seats_in_row d) @ '')'')]))
   \<and> (map_of (show_session_table s) (show_session self) = Some session \<and>
      map_of (planetarium_dome_table s) (planetarium_dome session) = Some d \<longrightarrow>
        (validate_ticket (row self) (seat self) d ValidationError = Inl (ValidationError e) \<longrightarrow>
           full_clean self s = Inl (ValidationError (clean_fields self s @ e))) \<and>
        (validate_ticket (row self) (seat self) d ValidationError = Inr () \<and>
         same_seat_rows self (ticket_table s) \<noteq> [] \<longrightarrow>
           full_clean self s = Inl (ValidationError
             (clean_fields self s @ [(''__all__'', unique_error_message)]))))"
proof (intro conjI impI)
  assume "\<not> (1 \<le> r \<and> r \<le> rows d)"
  then show "validate_ticket r c d err =
        Inl (err [(''row'', ''row number must be in range: (1, rows) '' @ arrow @
                            '' (1, '' @ str_int (rows d) @ '')'')])"
    by (simp add: validate_ticket_unfold range_message_row)
next
  assume "1 \<le> r \<and> r \<le> rows d \<and> \<not> (1 \<le> c \<and> c \<le> seats_in_row d)"
  then show "validate_ticket r c d err =
        Inl (err [(''seat'', ''seat number must be in range: (1, seats_in_row) '' @ arrow @
                             '' (1, '' @ str_int (seats_in_row d) @ '')'')])"
    by (simp add: validate_ticket_unfold range_message_seat)
next
  assume look: "map_of (show_session_table s) (show_session self) = Some session \<and>
      map_of (planetarium_dome_table s) (planetarium_dome session) = Some d"
    and bad: "validate_ticket (row self) (seat self) d ValidationError =
      Inl (ValidationError e)"
  then show "full_clean self s = Inl (ValidationError (clean_fields self s @ e))"
    using full_clean_range_error by blast
next
  assume look: "map_of (show_session_table s) (show_session self) = Some session \<and>
      map_of (planetarium_dome_table s) (planetarium_dome session) = Some d"
    and ok: "validate_ticket (row self) (seat self) d ValidationError = Inr () \<and>
      same_seat_rows self (ticket_table s) \<noteq> []"
  then have "clean self s = Inr ()" using clean_resolved by metis
  with ok show "full_clean self s = Inl (ValidationError
             (clean_fields self s @ [(''__all__'', unique_error_message)]))"
    using full_clean_duplicate by blast
qed

theorem range_error_names_field_in_order_witness:
  "validate_ticket 26 1 sample_dome ValidationError =
     Inl (ValidationError
       [(''row'', ''row number must be in range: (1, rows) '' @ arrow @ '' (1, 25)'')])
   \<and> validate_ticket 25 26 sample_dome ValidationError =
     Inl (ValidationError
       [(''seat'', ''seat number must be in range: (1, seats_in_row) '' @ arrow @
                   '' (1, 25)'')])
   \<and> full_clean (sample_ticket\<lparr>pk := None, row := 26, seat := 26\<rparr>) sample_db =
     Inl (ValidationError
       [(''row'', ''row number must be in range: (1, rows) '' @ arrow @ '' (1, 25)'')])
   \<and> full_clean (sample_ticket\<lparr>pk := None\<rparr>) sample_db =
     Inl (ValidationError [(''__all__'', unique_error_message)])"
proof -
  let ?far = "sample_ticket\<lparr>pk := None, row := 26, seat := 26\<rparr>"
  let ?dup = "sample_ticket\<lparr>pk := None\<rparr>"
  have dims: "rows sample_dome = 25" "seats_in_row sample_dome = 25"
    by (simp_all add: sample_dome_def)
  have a: "validate_ticket 26 1 sample_dome ValidationError =
     Inl (ValidationError
       [(''row'', ''row number must be in range: (1, rows) '' @ arrow @ '' (1, 25)'')])"
    using range_error_names_field_in_order [of 26 sample_dome 1 ValidationError]
    by (simp add: dims str_int_25)
  have b: "validate_ticket 25 26 sample_dome ValidationError =
     Inl (ValidationError
       [(''seat'', ''seat number must be in range: (1, seats_in_row) '' @ arrow @
                   '' (1, 25)'')])"
    using range_error_names_field_in_order [of 25 sample_dome 26 ValidationError]
    by (simp add: dims str_int_25)
  have far: "validate_ticket (row ?far) (seat ?far) sample_dome ValidationError =
     Inl (ValidationError
       [(''row'', ''row number must be in range: (1, rows) '' @ arrow @ '' (1, 25)'')])"
    using range_error_names_field_in_order [of 26 sample_dome 26 ValidationError]
    by (simp add: dims str_int_25)
  have c: "full_clean ?far sample_db =
     Inl (ValidationError
       [(''row'', ''row number must be in range: (1, rows) '' @ arrow @ '' (1, 25)'')])"
    using range_error_names_field_in_order
      [of 0 sample_dome 0 ValidationError sample_db ?far "sample_session 1"
          "[(''row'', ''row number must be in range: (1, rows) '' @ arrow @ '' (1, 25)'')]"]
      sample_db_lookups far sample_db_clean_fields [of ?far]
    by (simp add: sample_ticket_def)
  have ok: "validate_ticket (row ?dup) (seat ?dup) sample_dome ValidationError = Inr ()"
    by (simp add: validate_ticket_unfold sample_ticket_def dims)
  have taken: "same_seat_rows ?dup (ticket_table sample_db) \<noteq> []"
    by (simp add: same_seat_rows_def sample_db_def sample_ticket_def
        unique_together_key_def)
  have d: "full_clean ?dup sample_db =
     Inl (ValidationError [(''__all__'', unique_error_message)])"
    using range_error_names_field_in_order
      [of 0 sample_dome 0 ValidationError sample_db ?dup "sample_session 1" "[]"]
      sample_db_lookups ok taken sample_db_clean_fields [of ?dup]
    by (simp add: sample_ticket_def)
  from a b c d show ?thesis by simp
qed

text \<open>
  C5. \<open>save\<close> validates before it writes. When \<open>full_clean\<close> raises, \<open>save\<close> raises the
  same error and the store is as it was; a range error of \<open>clean\<close> and a seat already
  taken both end so. When \<open>full_clean\<close> passes, the store that \<open>super().save\<close> receives
  is the one \<open>save\<close> was given, and the write goes through: a new ticket is appended
  under a new primary key.
\<close>

theorem save_validates_before_persisting:
  "(full_clean self s = Inl e \<longrightarrow> save self s = (Inl e, s))
   \<and> (clean self s \<noteq> Inr () \<longrightarrow> (\<exists>e'. save self s = (Inl e', s)))
   \<and> (same_seat_rows self (ticket_table s) \<noteq> [] \<longrightarrow> (\<exists>e'. save self s = (Inl e', s)))
   \<and> (full_clean self s = Inr () \<longrightarrow> save self s = Model_save self s)
   \<and> (full_clean self s = Inr () \<and> pk self = None \<longrightarrow>
        save self s =
          (Inr (self\<lparr>pk := Some (next_pk (ticket_table s))\<rparr>),
           s\<lparr>ticket_table :=
               ticket_table s @ [self\<lparr>pk := Some (next_pk (ticket_table s))\<rparr>]\<rparr>))"
proof (intro conjI impI)
  assume "full_clean self s = Inl e"
  then show "save self s = (Inl e, s)" by (simp add: save_def)
next
  assume "clean self s \<noteq> Inr ()"
  then obtain e0 where "clean self s = Inl e0" by (cases "clean self s") auto
  then obtain e' where "full_clean self s = Inl e'"
    using full_clean_of_clean_error by blast
  then show "\<exists>e'. save self s = (Inl e', s)" by (auto simp: save_def)
next
  assume "same_seat_rows self (ticket_table s) \<noteq> []"
  then show "\<exists>e'. save self s = (Inl e', s)" by (rule save_duplicate_unchanged)
next
  assume "full_clean self s = Inr ()"
  then show "save self s = Model_save self s" by (simp add: save_def)
next
  assume ok: "full_clean self s = Inr () \<and> pk self = None"
  then have "same_seat_rows self (ticket_table s) = []"
    using full_clean_ok_no_duplicate by blast
  with ok show "save self s =
          (Inr (self\<lparr>pk := Some (next_pk (ticket_table s))\<rparr>),
           s\<lparr>ticket_table :=
               ticket_table s @ [self\<lparr>pk := Some (next_pk (ticket_table s))\<rparr>]\<rparr>)"
    by (simp add: save_def Model_save_def Let_def)
qed

lemma sample_db_pks_ok: "pks_ok (ticket_table sample_db)"
  by (simp add: pks_ok_def sample_db_def sample_ticket_def other_ticket_def)

lemma sample_db_seats_unique: "seats_unique (ticket_table sample_db)"
  by (simp add: seats_unique_def sample_db_def sample_ticket_def other_ticket_def
      unique_together_key_def)

lemma sample_db_next_pk: "next_pk (ticket_table sample_db) = 3"
  by (simp add: next_pk_def sample_db_def sample_ticket_def other_ticket_def)

lemma sample_db_clean:
  "show_session t = 1 \<Longrightarrow>
   clean t sample_db = validate_ticket (row t) (seat t) sample_dome ValidationError"
  using sample_db_lookups by (simp add: clean_def)

lemma sample_db_full_clean_far:
  "full_clean (sample_ticket\<lparr>pk := None, row := 26, seat := 26\<rparr>) sample_db =
     Inl (ValidationError
       [(''row'', ''row number must be in range: (1, rows) '' @ arrow @ '' (1, 25)'')])"
proof -
  let ?far = "sample_ticket\<lparr>pk := None, row := 26, seat := 26\<rparr>"
  have "validate_ticket (row ?far) (seat ?far) sample_dome ValidationError =
     Inl (ValidationError
       [(''row'', ''row number must be in range: (1, rows) '' @ arrow @ '' (1, 25)'')])"
    by (simp add: validate_ticket_unfold range_message_row str_int_25 sample_dome_def
        sample_ticket_def)
  from full_clean_range_error [OF _ _ this, of sample_db "sample_session 1"]
  show ?thesis
    using sample_db_lookups sample_db_clean_fields [of ?far]
    by (simp add: sample_ticket_def)
qed

lemma sample_db_full_clean_new:
  "full_clean (sample_ticket\<lparr>pk := None, row := 1, seat := 2\<rparr>) sample_db = Inr ()"
proof -
  let ?new = "sample_ticket\<lparr>pk := None, row := 1, seat := 2\<rparr>"
  have "clean ?new sample_db = Inr ()"
    by (simp add: sample_db_clean validate_ticket_unfold sample_ticket_def sample_dome_def)
  moreover have "clean_fields ?new sample_db = []"
    by (simp add: sample_db_clean_fields sample_ticket_def)
  moreover have "validate_unique [] ?new sample_db = []"
    by (simp add: validate_unique_def unique_together_def same_seat_rows_def sample_db_def
        sample_ticket_def other_ticket_def unique_together_key_def)
  ultimately show ?thesis
    by (simp add: full_clean_def raise_if_errors_def)
qed

theorem save_validates_before_persisting_witness:
  "save (sample_ticket\<lparr>pk := None, row := 26, seat := 26\<rparr>) sample_db =
     (Inl (ValidationError
        [(''row'', ''row number must be in range: (1, rows) '' @ arrow @ '' (1, 25)'')]),
      sample_db)
   \<and> save (sample_ticket\<lparr>pk := None, row := 1, seat := 2\<rparr>) sample_db =
     (Inr (sample_ticket\<lparr>pk := Some 3, row := 1, seat := 2\<rparr>),
      sample_db\<lparr>ticket_table :=
        ticket_table sample_db @ [sample_ticket\<lparr>pk := Some 3, row := 1, seat := 2\<rparr>]\<rparr>)"
proof -
  have a: "save (sample_ticket\<lparr>pk := None, row := 26, seat := 26\<rparr>) sample_db =
     (Inl (ValidationError
        [(''row'', ''row number must be in range: (1, rows) '' @ arrow @ '' (1, 25)'')]),
      sample_db)"
    using save_validates_before_persisting
      [of "sample_ticket\<lparr>pk := None, row := 26, seat := 26\<rparr>" sample_db
          "ValidationError
            [(''row'', ''row number must be in range: (1, rows) '' @ arrow @ '' (1, 25)'')]"]
      sample_db_full_clean_far
    by blast
  have "pk (sample_ticket\<lparr>pk := None, row := 1, seat := 2\<rparr>) = None" by simp
  with save_validates_before_persisting
      [of "sample_ticket\<lparr>pk := None, row := 1, seat := 2\<rparr>" sample_db]
    sample_db_full_clean_new
  have "save (sample_ticket\<lparr>pk := None, row := 1, seat := 2\<rparr>) sample_db =
     (Inr (sample_ticket\<lparr>pk := None, row := 1, seat := 2,
             pk := Some (next_pk (ticket_table sample_db))\<rparr>),
      sample_db\<lparr>ticket_table := ticket_table sample_db @
        [sample_ticket\<lparr>pk := None, row := 1, seat := 2,
           pk := Some (next_pk (ticket_table sample_db))\<rparr>]\<rparr>)"
    by blast
  then have b: "save (sample_ticket\<lparr>pk := None, row := 1, seat := 2\<rparr>) sample_db =
     (Inr (sample_ticket\<lparr>pk := Some 3, row := 1, seat := 2\<rparr>),
      sample_db\<lparr>ticket_table :=
        ticket_table sample_db @ [sample_ticket\<lparr>pk := Some 3, row := 1, seat := 2\<rparr>]\<rparr>)"
    by (simp add: sample_db_next_pk)
  from a b show ?thesis by (rule conjI)
qed

subsection \<open>Uniqueness of the seat in a session\<close>

lemma fold_max_pk_ge:
  "m \<le> fold (\<lambda>t m. case pk t of None \<Rightarrow> m | Some i \<Rightarrow> max i m) ts m"
proof (induction ts arbitrary: m)
  case Nil
  then show ?case by simp
next
  case (Cons a ts)
  show ?case
  proof (cases "pk a")
    case None
    with Cons.IH [of m] show ?thesis by simp
  next
    case (Some i)
    have "m \<le> max i m" by simp
    also note Cons.IH [of "max i m"]
    finally show ?thesis using Some by simp
  qed
qed

lemma fold_max_pk_bound:
  "t \<in> set ts \<Longrightarrow> pk t = Some i \<Longrightarrow>
   i \<le> fold (\<lambda>t m. case pk t of None \<Rightarrow> m | Some i \<Rightarrow> max i m) ts m"
proof (induction ts arbitrary: m)
  case Nil
  then show ?case by simp
next
  case (Cons a ts)
  show ?case
  proof (cases "t = a")
    case True
    have "max i m \<le> fold (\<lambda>t m. case pk t of None \<Rightarrow> m | Some i \<Rightarrow> max i m) ts (max i m)"
      by (rule fold_max_pk_ge)
    with True Cons.prems show ?thesis by simp
  next
    case False
    with Cons show ?thesis by simp
  qed
qed

lemma next_pk_fresh: "Some (next_pk ts) \<notin> set (map pk ts)"
proof
  assume "Some (next_pk ts) \<in> set (map pk ts)"
  then obtain t where "t \<in> set ts" "pk t = Some (next_pk ts)" by auto
  from fold_max_pk_bound [OF this, of 0] show False by (simp add: next_pk_def)
qed

lemma same_seat_rows_empty:
  "same_seat_rows self ts = [] \<longleftrightarrow>
     (\<forall>t \<in> set ts. unique_together_key t = unique_together_key self \<longrightarrow>
        pk self \<noteq> None \<and> pk t = pk self)"
  by (auto simp: same_seat_rows_def filter_empty_conv)

lemma update_keeps_pks:
  "map pk (map (\<lambda>t. if pk t = pk self then self else t) ts) = map pk ts"
  by (induction ts) auto

lemma update_keeps_unique:
  "distinct (map pk ts) \<Longrightarrow> distinct (map unique_together_key ts) \<Longrightarrow>
   \<forall>t \<in> set ts. unique_together_key t = unique_together_key self \<longrightarrow> pk t = pk self \<Longrightarrow>
   distinct (map unique_together_key (map (\<lambda>t. if pk t = pk self then self else t) ts))"
proof (induction ts)
  case Nil
  then show ?case by simp
next
  case (Cons a ts)
  then have IH: "distinct (map unique_together_key
      (map (\<lambda>t. if pk t = pk self then self else t) ts))"
    by simp
  show ?case
  proof (cases "pk a = pk self")
    case True
    with Cons.prems(1) have no: "\<forall>t \<in> set ts. pk t \<noteq> pk self"
      by (metis distinct.simps(2) image_eqI list.simps(9) set_map)
    then have same: "map (\<lambda>t. if pk t = pk self then self else t) ts = ts"
      by (simp add: map_idI)
    from no Cons.prems(3) have "unique_together_key self \<notin> set (map unique_together_key ts)"
      by auto
    with True same Cons.prems(2) show ?thesis by simp
  next
    case False
    with Cons.prems(3) have ne: "unique_together_key a \<noteq> unique_together_key self"
      by auto
    from Cons.prems(2) have "unique_together_key a \<notin> set (map unique_together_key ts)"
      by simp
    with ne have "unique_together_key a \<notin>
        set (map unique_together_key (map (\<lambda>t. if pk t = pk self then self else t) ts))"
      by (auto split: if_splits)
    with False IH show ?thesis by simp
  qed
qed

lemma Model_save_invariant:
  assumes "pks_ok (ticket_table s)" and "seats_unique (ticket_table s)"
  shows "pks_ok (ticket_table (snd (Model_save self s))) \<and>
         seats_unique (ticket_table (snd (Model_save self s)))"
proof (cases "same_seat_rows self (ticket_table s) = []")
  case False
  with assms show ?thesis by (simp add: Model_save_def)
next
  case True
  note empty = True [unfolded same_seat_rows_empty]
  show ?thesis
  proof (cases "pk self \<noteq> None \<and> pk self \<in> set (map pk (ticket_table s))")
    case upd: True
    from empty have "\<forall>t \<in> set (ticket_table s).
        unique_together_key t = unique_together_key self \<longrightarrow> pk t = pk self" by blast
    with assms have "distinct (map unique_together_key
        (map (\<lambda>t. if pk t = pk self then self else t) (ticket_table s)))"
      by (intro update_keeps_unique) (simp_all add: pks_ok_def seats_unique_def)
    with assms upd True show ?thesis
      by (simp add: Model_save_def pks_ok_def seats_unique_def update_keeps_pks
          del: map_map)
  next
    case ins: False
    have fresh_key: "unique_together_key self \<notin> set (map unique_together_key (ticket_table s))"
    proof
      assume "unique_together_key self \<in> set (map unique_together_key (ticket_table s))"
      then obtain t where t: "t \<in> set (ticket_table s)"
          "unique_together_key t = unique_together_key self" by auto
      with empty have "pk self \<noteq> None" "pk t = pk self" by auto
      with t(1) ins show False by force
    qed
    show ?thesis
    proof (cases "pk self")
      case None
      with assms True fresh_key next_pk_fresh [of "ticket_table s"] show ?thesis
        by (simp add: Model_save_def Let_def pks_ok_def seats_unique_def
            unique_together_key_def)
    next
      case (Some i)
      with assms True fresh_key ins show ?thesis
        by (simp add: Model_save_def Let_def pks_ok_def seats_unique_def)
    qed
  qed
qed

lemma save_invariant:
  assumes "pks_ok (ticket_table s)" and "seats_unique (ticket_table s)"
  shows "pks_ok (ticket_table (snd (save self s))) \<and>
         seats_unique (ticket_table (snd (save self s)))"
  using assms Model_save_invariant [OF assms, of self]
  by (cases "full_clean self s") (simp_all add: save_def)

lemma filter_keeps_seats_unique: "seats_unique ts \<Longrightarrow> seats_unique (filter P ts)"
  by (simp add: seats_unique_def distinct_map_filter)

lemma delete_ShowSession_tables:
  "ticket_table (delete_ShowSession j s) =
     filter (\<lambda>t. show_session t \<noteq> j) (ticket_table s)"
  "show_session_table (delete_ShowSession j s) =
     filter (\<lambda>(k, _). k \<noteq> j) (show_session_table s)"
  "astronomy_show_table (delete_ShowSession j s) = astronomy_show_table s"
  by (simp_all add: delete_ShowSession_def)

lemma fold_delete_ShowSession:
  "ticket_table (fold delete_ShowSession js s) =
     filter (\<lambda>t. show_session t \<notin> set js) (ticket_table s)
   \<and> show_session_table (fold delete_ShowSession js s) =
     filter (\<lambda>(j, _). j \<notin> set js) (show_session_table s)
   \<and> astronomy_show_table (fold delete_ShowSession js s) = astronomy_show_table s"
proof (induction js arbitrary: s)
  case Nil
  then show ?case by simp
next
  case (Cons j js)
  show ?case
    by (simp add: Cons.IH delete_ShowSession_tables case_prod_unfold conj_commute)
qed

lemma delete_AstronomyShow_tables:
  "ticket_table (delete_AstronomyShow i s) =
     filter (\<lambda>t. show_session t \<notin> set (show_sessions_of i s)) (ticket_table s)"
  "show_session_table (delete_AstronomyShow i s) =
     filter (\<lambda>(j, _). j \<notin> set (show_sessions_of i s)) (show_session_table s)"
  "astronomy_show_table (delete_AstronomyShow i s) =
     filter (\<lambda>(j, _). j \<noteq> i) (astronomy_show_table s)"
  by (simp_all add: delete_AstronomyShow_def Let_def fold_delete_ShowSession)

lemma filter_keeps_pks_ok: "pks_ok ts \<Longrightarrow> pks_ok (filter P ts)"
  by (auto simp: pks_ok_def distinct_map_filter)

lemma full_clean_clean_error:
  assumes "clean self s = Inl (ValidationError e)"
  shows "full_clean self s = Inl (ValidationError (clean_fields self s @ e))"
proof -
  from assms obtain session dome where
    look: "map_of (show_session_table s) (show_session self) = Some session"
      "map_of (planetarium_dome_table s) (planetarium_dome session) = Some dome"
    by (auto simp: clean_def split: option.splits)
  with assms have "validate_ticket (row self) (seat self) dome ValidationError =
      Inl (ValidationError e)"
    by (simp add: clean_def)
  with look show ?thesis by (rule full_clean_range_error)
qed

lemma str_int_10: "str_int 10 = ''10''"
  by (simp add: str_int_def str_nat.simps digit_def)

lemma shrunk_db_clean_duplicate:
  "clean (sample_ticket\<lparr>pk := None\<rparr>) shrunk_db =
     Inl (ValidationError
       [(''row'', ''row number must be in range: (1, rows) '' @ arrow @ '' (1, 10)'')])"
  by (simp add: clean_def shrunk_db_def sample_db_def sample_session_def sample_ticket_def
      sample_dome_def validate_ticket_unfold range_message_row str_int_10)

lemma shrunk_db_clean_fields: "clean_fields (sample_ticket\<lparr>pk := None\<rparr>) shrunk_db = []"
  by (simp add: clean_fields_def shrunk_db_def sample_db_def sample_ticket_def)

text \<open>
  C2 as stated fails where it names the error. In the sample store with the dome rebuilt
  to 10 rows, \<open>sample_ticket\<close> (row 25, seat 25, session 1) is stored; saving a new ticket
  with the same \<open>(show_session, row, seat)\<close> fails with the range error of the row, not
  with a uniqueness error.
\<close>

theorem duplicate_out_of_range_gets_range_error:
  "sample_ticket \<in> set (ticket_table shrunk_db)
   \<and> unique_together_key (sample_ticket\<lparr>pk := None\<rparr>) = unique_together_key sample_ticket
   \<and> save (sample_ticket\<lparr>pk := None\<rparr>) shrunk_db =
       (Inl (ValidationError
          [(''row'', ''row number must be in range: (1, rows) '' @ arrow @ '' (1, 10)'')]),
        shrunk_db)
   \<and> save (sample_ticket\<lparr>pk := None\<rparr>) shrunk_db \<noteq>
       (Inl (ValidationError [(''__all__'', unique_error_message)]), shrunk_db)"
proof -
  have mem: "sample_ticket \<in> set (ticket_table shrunk_db)"
    by (simp add: shrunk_db_def sample_db_def)
  have key: "unique_together_key (sample_ticket\<lparr>pk := None\<rparr>) =
      unique_together_key sample_ticket"
    by (simp add: unique_together_key_def)
  have "full_clean (sample_ticket\<lparr>pk := None\<rparr>) shrunk_db =
      Inl (ValidationError
        [(''row'', ''row number must be in range: (1, rows) '' @ arrow @ '' (1, 10)'')])"
    using full_clean_clean_error [OF shrunk_db_clean_duplicate]
    by (simp add: shrunk_db_clean_fields)
  then have sv: "save (sample_ticket\<lparr>pk := None\<rparr>) shrunk_db =
       (Inl (ValidationError
          [(''row'', ''row number must be in range: (1, rows) '' @ arrow @ '' (1, 10)'')]),
        shrunk_db)"
    by (simp add: save_def)
  have "save (sample_ticket\<lparr>pk := None\<rparr>) shrunk_db \<noteq>
       (Inl (ValidationError [(''__all__'', unique_error_message)]), shrunk_db)"
    unfolding sv by simp
  with mem key sv show ?thesis by blast
qed

text \<open>
  C2, amended. No two stored tickets of a session have the same (row, seat). Saving a
  ticket whose \<open>(show_session, row, seat)\<close> is that of another stored ticket fails and
  leaves the store as it was: with the uniqueness error when the ticket passes the range
  validation of \<open>clean\<close>, with the range error of \<open>clean\<close> when it does not. That every
  stored ticket has its own primary key and its own \<open>(show_session, row, seat)\<close> holds in
  the empty store and is kept by every \<open>save\<close>, whatever its outcome, and by each of the
  three deletions.
\<close>

theorem unique_together_enforced:
  "(t \<in> set (ticket_table s) \<and> unique_together_key t = unique_together_key self \<and>
      (pk self = None \<or> pk t \<noteq> pk self) \<longrightarrow>
        (\<exists>e. save self s = (Inl e, s)) \<and>
        (clean self s = Inr () \<longrightarrow>
           save self s = (Inl (ValidationError
             (clean_fields self s @ [(''__all__'', unique_error_message)])), s)) \<and>
        (clean self s = Inl (ValidationError e) \<longrightarrow>
           save self s = (Inl (ValidationError (clean_fields self s @ e)), s)))
   \<and> (pks_ok (ticket_table s) \<and> seats_unique (ticket_table s) \<longrightarrow>
        pks_ok (ticket_table (snd (save self s))) \<and>
        seats_unique (ticket_table (snd (save self s))) \<and>
        pks_ok (ticket_table (delete_Reservation i s)) \<and>
        seats_unique (ticket_table (delete_Reservation i s)) \<and>
        pks_ok (ticket_table (delete_ShowSession i s)) \<and>
        seats_unique (ticket_table (delete_ShowSession i s)) \<and>
        pks_ok (ticket_table (delete_AstronomyShow i s)) \<and>
        seats_unique (ticket_table (delete_AstronomyShow i s)))
   \<and> pks_ok (ticket_table empty_db) \<and> seats_unique (ticket_table empty_db)"
proof (intro conjI impI)
  assume h: "t \<in> set (ticket_table s) \<and> unique_together_key t = unique_together_key self \<and>
      (pk self = None \<or> pk t \<noteq> pk self)"
  then have dup: "same_seat_rows self (ticket_table s) \<noteq> []"
    using other_row_in_same_seat_rows by blast
  then show "\<exists>e. save self s = (Inl e, s)" by (rule save_duplicate_unchanged)
  show "save self s = (Inl (ValidationError
          (clean_fields self s @ [(''__all__'', unique_error_message)])), s)"
    if "clean self s = Inr ()"
    using full_clean_duplicate [OF that dup] by (simp add: save_def)
  show "save self s = (Inl (ValidationError (clean_fields self s @ e)), s)"
    if "clean self s = Inl (ValidationError e)"
    using full_clean_clean_error [OF that] by (simp add: save_def)
next
  assume inv: "pks_ok (ticket_table s) \<and> seats_unique (ticket_table s)"
  then show "pks_ok (ticket_table (snd (save self s)))"
    and "seats_unique (ticket_table (snd (save self s)))"
    using save_invariant by blast+
  from inv show "pks_ok (ticket_table (delete_Reservation i s))"
    by (simp add: delete_Reservation_def filter_keeps_pks_ok)
  from inv show "seats_unique (ticket_table (delete_Reservation i s))"
    by (simp add: delete_Reservation_def filter_keeps_seats_unique)
  from inv show "pks_ok (ticket_table (delete_ShowSession i s))"
    by (simp add: delete_ShowSession_def filter_keeps_pks_ok)
  from inv show "seats_unique (ticket_table (delete_ShowSession i s))"
    by (simp add: delete_ShowSession_def filter_keeps_seats_unique)
  from inv show "pks_ok (ticket_table (delete_AstronomyShow i s))"
    by (simp add: delete_AstronomyShow_tables filter_keeps_pks_ok)
  from inv show "seats_unique (ticket_table (delete_AstronomyShow i s))"
    by (simp add: delete_AstronomyShow_tables filter_keeps_seats_unique)
qed (simp_all add: empty_db_def pks_ok_def seats_unique_def)

theorem unique_together_enforced_witness:
  "sample_ticket \<in> set (ticket_table sample_db)
   \<and> unique_together_key sample_ticket = unique_together_key (sample_ticket\<lparr>pk := None\<rparr>)
   \<and> clean (sample_ticket\<lparr>pk := None\<rparr>) sample_db = Inr ()
   \<and> save (sample_ticket\<lparr>pk := None\<rparr>) sample_db =
       (Inl (ValidationError [(''__all__'', unique_error_message)]), sample_db)
   \<and> sample_ticket \<in> set (ticket_table shrunk_db)
   \<and> clean (sample_ticket\<lparr>pk := None\<rparr>) shrunk_db =
       Inl (ValidationError
         [(''row'', ''row number must be in range: (1, rows) '' @ arrow @ '' (1, 10)'')])
   \<and> save (sample_ticket\<lparr>pk := None\<rparr>) shrunk_db =
       (Inl (ValidationError
          [(''row'', ''row number must be in range: (1, rows) '' @ arrow @ '' (1, 10)'')]),
        shrunk_db)
   \<and> pks_ok (ticket_table sample_db) \<and> seats_unique (ticket_table sample_db)
   \<and> pks_ok (ticket_table
        (snd (save (sample_ticket\<lparr>pk := None, row := 1, seat := 2\<rparr>) sample_db)))
   \<and> seats_unique (ticket_table
        (snd (save (sample_ticket\<lparr>pk := None, row := 1, seat := 2\<rparr>) sample_db)))
   \<and> pks_ok (ticket_table (delete_Reservation 1 sample_db))
   \<and> seats_unique (ticket_table (delete_AstronomyShow 1 sample_db))"
proof -
  let ?dup = "sample_ticket\<lparr>pk := None\<rparr>"
  let ?msg = "[(''row'', ''row number must be in range: (1, rows) '' @ arrow @ '' (1, 10)'')]"
  have h1: "sample_ticket \<in> set (ticket_table sample_db)"
    and h1': "sample_ticket \<in> set (ticket_table shrunk_db)"
    by (simp_all add: shrunk_db_def sample_db_def)
  have h2: "unique_together_key sample_ticket = unique_together_key ?dup"
    by (simp add: unique_together_key_def)
  have h3: "pk ?dup = None" by simp
  have h4: "clean ?dup sample_db = Inr ()"
    by (simp add: sample_db_clean validate_ticket_unfold sample_ticket_def sample_dome_def)
  have cf: "clean_fields ?dup sample_db = []"
    by (simp add: sample_db_clean_fields sample_ticket_def)
  have a: "save ?dup sample_db =
       (Inl (ValidationError [(''__all__'', unique_error_message)]), sample_db)"
    using unique_together_enforced [of sample_ticket sample_db ?dup] h1 h2 h3 h4 cf
    by simp
  have b: "save ?dup shrunk_db = (Inl (ValidationError ?msg), shrunk_db)"
    using unique_together_enforced [of sample_ticket shrunk_db ?dup ?msg]
      h1' h2 h3 shrunk_db_clean_duplicate shrunk_db_clean_fields
    by simp
  note inv = unique_together_enforced
      [of sample_ticket sample_db "sample_ticket\<lparr>pk := None, row := 1, seat := 2\<rparr>" _ 1]
  have c: "pks_ok (ticket_table
        (snd (save (sample_ticket\<lparr>pk := None, row := 1, seat := 2\<rparr>) sample_db)))"
    and d: "seats_unique (ticket_table
        (snd (save (sample_ticket\<lparr>pk := None, row := 1, seat := 2\<rparr>) sample_db)))"
    and e: "pks_ok (ticket_table (delete_Reservation 1 sample_db))"
    and f: "seats_unique (ticket_table (delete_AstronomyShow 1 sample_db))"
    using inv sample_db_pks_ok sample_db_seats_unique by blast+
  from h1 h2 h4 a h1' shrunk_db_clean_duplicate b c d e f
    sample_db_pks_ok sample_db_seats_unique
  show ?thesis by blast
qed

subsection \<open>Cascading deletes\<close>

lemma show_sessions_of_member:
  "(j, session) \<in> set (show_session_table s) \<Longrightarrow> astronomy_show session = i \<Longrightarrow>
   j \<in> set (show_sessions_of i s)"
  by (force simp: show_sessions_of_def)

text \<open>
  C6. After a reservation is deleted, it is gone and no stored ticket points to it.
  After an astronomy show is deleted, it is gone, no stored show session points to it,
  and no stored ticket points to a session that was one of the show's.
\<close>

theorem cascade_delete_removes_tickets:
  "(\<forall>t \<in> set (ticket_table (delete_Reservation i s)). reservation t \<noteq> i)
   \<and> i \<notin> fst ` set (reservation_table (delete_Reservation i s))
   \<and> i \<notin> fst ` set (astronomy_show_table (delete_AstronomyShow i s))
   \<and> (\<forall>(j, session) \<in> set (show_session_table (delete_AstronomyShow i s)).
         astronomy_show session \<noteq> i)
   \<and> (\<forall>t \<in> set (ticket_table (delete_AstronomyShow i s)).
        \<forall>(j, session) \<in> set (show_session_table s).
          astronomy_show session = i \<longrightarrow> show_session t \<noteq> j)"
  by (auto simp: delete_Reservation_def delete_AstronomyShow_tables
        dest: show_sessions_of_member)

theorem cascade_delete_removes_tickets_witness:
  "reservation sample_ticket = 1
   \<and> sample_ticket \<in> set (ticket_table sample_db)
   \<and> sample_ticket \<notin> set (ticket_table (delete_Reservation 1 sample_db))
   \<and> (1, sample_session 1) \<in> set (show_session_table sample_db)
   \<and> astronomy_show (sample_session 1) = 1
   \<and> show_session sample_ticket = 1
   \<and> (1, sample_session 1) \<notin> set (show_session_table (delete_AstronomyShow 1 sample_db))
   \<and> sample_ticket \<notin> set (ticket_table (delete_AstronomyShow 1 sample_db))
   \<and> other_ticket \<in> set (ticket_table (delete_AstronomyShow 1 sample_db))
   \<and> show_session other_ticket \<noteq> 1"
proof -
  have r: "reservation sample_ticket = 1" and ss: "show_session sample_ticket = 1"
    by (simp_all add: sample_ticket_def)
  have mem: "sample_ticket \<in> set (ticket_table sample_db)"
    and smem: "(1, sample_session 1) \<in> set (show_session_table sample_db)"
    by (simp_all add: sample_db_def)
  have sh: "astronomy_show (sample_session 1) = 1"
    by (simp add: sample_session_def)
  note cascade = cascade_delete_removes_tickets [of 1 sample_db]
  have a: "sample_ticket \<notin> set (ticket_table (delete_Reservation 1 sample_db))"
    using cascade r by blast
  have b: "(1, sample_session 1) \<notin> set (show_session_table (delete_AstronomyShow 1 sample_db))"
    using cascade sh by blast
  have c: "sample_ticket \<notin> set (ticket_table (delete_AstronomyShow 1 sample_db))"
    using cascade smem sh ss by blast
  have d: "other_ticket \<in> set (ticket_table (delete_AstronomyShow 1 sample_db))"
    by (simp add: delete_AstronomyShow_tables show_sessions_of_def sample_db_def
        sample_session_def other_ticket_def)
  with cascade smem sh have e: "show_session other_ticket \<noteq> 1" by blast
  from r mem a smem sh ss b c d e show ?thesis by blast
qed

subsection \<open>The dimensions of a dome\<close>

lemma PlanetariumDome_create_accepted:
  assumes "0 \<le> rows dome" and "rows dome < 2 ^ 63"
      and "0 \<le> seats_in_row dome" and "seats_in_row dome < 2 ^ 63"
  shows "PlanetariumDome_create dome s =
     (Inr (next_id (planetarium_dome_table s)),
      s\<lparr>planetarium_dome_table :=
          planetarium_dome_table s @ [(next_id (planetarium_dome_table s), dome)]\<rparr>)"
  using assms
  by (simp add: PlanetariumDome_create_def store_integer_def PositiveIntegerField_check_def
      Let_def)

lemma PlanetariumDome_create_Inr:
  assumes "fst (PlanetariumDome_create dome s) = Inr i"
  shows "0 \<le> rows dome \<and> 0 \<le> seats_in_row dome \<and>
         planetarium_dome_table (snd (PlanetariumDome_create dome s)) =
           planetarium_dome_table s @ [(i, dome)]"
  using assms
  by (auto simp: PlanetariumDome_create_def PositiveIntegerField_check_def Let_def
      split: if_splits)

lemma PlanetariumDome_create_table:
  "planetarium_dome_table (snd (PlanetariumDome_create dome s)) = planetarium_dome_table s \<or>
   (0 \<le> rows dome \<and> 0 \<le> seats_in_row dome \<and>
    planetarium_dome_table (snd (PlanetariumDome_create dome s)) =
      planetarium_dome_table s @ [(next_id (planetarium_dome_table s), dome)])"
  by (simp add: PlanetariumDome_create_def PositiveIntegerField_check_def Let_def)

text \<open>
  C7 as stated fails: a dome with \<open>rows = 0\<close> and \<open>seats_in_row = 0\<close> is created and stored.
\<close>

theorem dome_with_zero_rows_is_created:
  "PlanetariumDome_create \<lparr>name = ''Best'', rows = 0, seats_in_row = 0\<rparr> empty_db =
     (Inr 1, empty_db\<lparr>planetarium_dome_table :=
        [(1, \<lparr>name = ''Best'', rows = 0, seats_in_row = 0\<rparr>)]\<rparr>)
   \<and> \<not> 1 \<le> rows \<lparr>name = ''Best'', rows = 0, seats_in_row = 0\<rparr>
   \<and> \<not> 1 \<le> seats_in_row \<lparr>name = ''Best'', rows = 0, seats_in_row = 0\<rparr>"
  by (simp add: PlanetariumDome_create_def PositiveIntegerField_check_def store_integer_def
        empty_db_def next_id_def)

text \<open>
  C7, amended. Every stored dome has \<open>rows \<ge> 0\<close> and \<open>seats_in_row \<ge> 0\<close>: a dome that
  is created has both, it is stored as it was given, and creating a dome keeps both true
  of every stored dome. Zero is among the values: for any name and any store, the dome
  with \<open>rows = 0\<close> and \<open>seats_in_row = 0\<close> is created and stored, and so is a dome with
  one of the two at zero and the other a value the column holds.
\<close>

theorem created_dome_dimensions_nonnegative:
  "(fst (PlanetariumDome_create dome s) = Inr i \<longrightarrow>
      0 \<le> rows dome \<and> 0 \<le> seats_in_row dome \<and>
      planetarium_dome_table (snd (PlanetariumDome_create dome s)) =
        planetarium_dome_table s @ [(i, dome)])
   \<and> ((\<forall>(j, d) \<in> set (planetarium_dome_table s). 0 \<le> rows d \<and> 0 \<le> seats_in_row d) \<longrightarrow>
      (\<forall>(j, d) \<in> set (planetarium_dome_table (snd (PlanetariumDome_create dome s))).
          0 \<le> rows d \<and> 0 \<le> seats_in_row d))
   \<and> PlanetariumDome_create (dome\<lparr>rows := 0, seats_in_row := 0\<rparr>) s =
       (Inr (next_id (planetarium_dome_table s)),
        s\<lparr>planetarium_dome_table := planetarium_dome_table s @
            [(next_id (planetarium_dome_table s), dome\<lparr>rows := 0, seats_in_row := 0\<rparr>)]\<rparr>)
   \<and> ((rows dome = 0 \<and> 0 \<le> seats_in_row dome \<and> seats_in_row dome < 2 ^ 63) \<or>
      (seats_in_row dome = 0 \<and> 0 \<le> rows dome \<and> rows dome < 2 ^ 63) \<longrightarrow>
        PlanetariumDome_create dome s =
          (Inr (next_id (planetarium_dome_table s)),
           s\<lparr>planetarium_dome_table :=
               planetarium_dome_table s @ [(next_id (planetarium_dome_table s), dome)]\<rparr>))"
proof (intro conjI impI)
  assume "fst (PlanetariumDome_create dome s) = Inr i"
  then show "0 \<le> rows dome" and "0 \<le> seats_in_row dome"
    and "planetarium_dome_table (snd (PlanetariumDome_create dome s)) =
        planetarium_dome_table s @ [(i, dome)]"
    using PlanetariumDome_create_Inr by blast+
next
  assume inv: "\<forall>(j, d) \<in> set (planetarium_dome_table s). 0 \<le> rows d \<and> 0 \<le> seats_in_row d"
  from PlanetariumDome_create_table [of dome s] inv
  show "\<forall>(j, d) \<in> set (planetarium_dome_table (snd (PlanetariumDome_create dome s))).
          0 \<le> rows d \<and> 0 \<le> seats_in_row d"
    by auto
next
  show "PlanetariumDome_create (dome\<lparr>rows := 0, seats_in_row := 0\<rparr>) s =
       (Inr (next_id (planetarium_dome_table s)),
        s\<lparr>planetarium_dome_table := planetarium_dome_table s @
            [(next_id (planetarium_dome_table s), dome\<lparr>rows := 0, seats_in_row := 0\<rparr>)]\<rparr>)"
    by (rule PlanetariumDome_create_accepted) simp_all
next
  assume "(rows dome = 0 \<and> 0 \<le> seats_in_row dome \<and> seats_in_row dome < 2 ^ 63) \<or>
      (seats_in_row dome = 0 \<and> 0 \<le> rows dome \<and> rows dome < 2 ^ 63)"
  then have "0 \<le> rows dome" "rows dome < 2 ^ 63"
    "0 \<le> seats_in_row dome" "seats_in_row dome < 2 ^ 63"
    by auto
  then show "PlanetariumDome_create dome s =
          (Inr (next_id (planetarium_dome_table s)),
           s\<lparr>planetarium_dome_table :=
               planetarium_dome_table s @ [(next_id (planetarium_dome_table s), dome)]\<rparr>)"
    by (rule PlanetariumDome_create_accepted)
qed

theorem created_dome_dimensions_nonnegative_witness:
  "fst (PlanetariumDome_create sample_dome empty_db) = Inr 1
   \<and> 0 \<le> rows sample_dome \<and> 0 \<le> seats_in_row sample_dome
   \<and> planetarium_dome_table (snd (PlanetariumDome_create sample_dome empty_db)) =
       [(1, sample_dome)]
   \<and> (1, sample_dome) \<in> set (planetarium_dome_table sample_db)
   \<and> (1, sample_dome) \<in>
       set (planetarium_dome_table
         (snd (PlanetariumDome_create (sample_dome\<lparr>rows := 0\<rparr>) sample_db)))
   \<and> 0 \<le> rows sample_dome
   \<and> rows (sample_dome\<lparr>rows := 0\<rparr>) = 0
   \<and> PlanetariumDome_create (sample_dome\<lparr>rows := 0\<rparr>) sample_db =
       (Inr 2, sample_db\<lparr>planetarium_dome_table :=
          [(1, sample_dome), (2, sample_dome\<lparr>rows := 0\<rparr>)]\<rparr>)
   \<and> PlanetariumDome_create (sample_dome\<lparr>rows := 0, seats_in_row := 0\<rparr>) sample_db =
       (Inr 2, sample_db\<lparr>planetarium_dome_table :=
          [(1, sample_dome), (2, sample_dome\<lparr>rows := 0, seats_in_row := 0\<rparr>)]\<rparr>)"
proof -
  have tab: "planetarium_dome_table sample_db = [(1, sample_dome)]"
    by (simp add: sample_db_def)
  have nid: "next_id (planetarium_dome_table sample_db) = 2"
    by (simp add: tab next_id_def)
  have dims: "rows sample_dome = 25" "seats_in_row sample_dome = 25"
    by (simp_all add: sample_dome_def)
  have h: "fst (PlanetariumDome_create sample_dome empty_db) = Inr 1"
    by (simp add: PlanetariumDome_create_def PositiveIntegerField_check_def
        store_integer_def dims empty_db_def next_id_def)
  have inv: "\<forall>(j, d) \<in> set (planetarium_dome_table sample_db).
      0 \<le> rows d \<and> 0 \<le> seats_in_row d"
    by (simp add: tab dims)
  have old: "(1, sample_dome) \<in> set (planetarium_dome_table sample_db)"
    by (simp add: tab)
  have zero: "rows (sample_dome\<lparr>rows := 0\<rparr>) = 0 \<and>
      0 \<le> seats_in_row (sample_dome\<lparr>rows := 0\<rparr>) \<and>
      seats_in_row (sample_dome\<lparr>rows := 0\<rparr>) < 2 ^ 63"
    by (simp add: dims)
  note a = created_dome_dimensions_nonnegative
      [of sample_dome empty_db 1, THEN conjunct1]
  note b = created_dome_dimensions_nonnegative
      [of "sample_dome\<lparr>rows := 0\<rparr>" sample_db,
       THEN conjunct2, THEN conjunct2, THEN conjunct2]
  note c = created_dome_dimensions_nonnegative
      [of sample_dome sample_db, THEN conjunct2, THEN conjunct2, THEN conjunct1]
  from a h have "0 \<le> rows sample_dome \<and> 0 \<le> seats_in_row sample_dome \<and>
      planetarium_dome_table (snd (PlanetariumDome_create sample_dome empty_db)) =
        planetarium_dome_table empty_db @ [(1, sample_dome)]"
    by blast
  then have 1: "0 \<le> rows sample_dome \<and> 0 \<le> seats_in_row sample_dome \<and>
      planetarium_dome_table (snd (PlanetariumDome_create sample_dome empty_db)) =
        [(1, sample_dome)]"
    by (simp add: empty_db_def)
  from b zero have "PlanetariumDome_create (sample_dome\<lparr>rows := 0\<rparr>) sample_db =
       (Inr (next_id (planetarium_dome_table sample_db)),
        sample_db\<lparr>planetarium_dome_table := planetarium_dome_table sample_db @
          [(next_id (planetarium_dome_table sample_db), sample_dome\<lparr>rows := 0\<rparr>)]\<rparr>)"
    by blast
  then have 2: "PlanetariumDome_create (sample_dome\<lparr>rows := 0\<rparr>) sample_db =
       (Inr 2, sample_db\<lparr>planetarium_dome_table :=
          [(1, sample_dome), (2, sample_dome\<lparr>rows := 0\<rparr>)]\<rparr>)"
    unfolding nid by (simp add: tab)
  then have 3: "(1, sample_dome) \<in> set (planetarium_dome_table
         (snd (PlanetariumDome_create (sample_dome\<lparr>rows := 0\<rparr>) sample_db)))"
    by simp
  from c have 4:
    "PlanetariumDome_create (sample_dome\<lparr>rows := 0, seats_in_row := 0\<rparr>) sample_db =
       (Inr 2, sample_db\<lparr>planetarium_dome_table :=
          [(1, sample_dome), (2, sample_dome\<lparr>rows := 0, seats_in_row := 0\<rparr>)]\<rparr>)"
    unfolding nid by (simp add: tab)
  from h 1 2 3 4 old zero show ?thesis by blast
qed

subsection \<open>The path of a show image\<close>

lemma rfind_snoc: "rfind (p @ [x]) c = (if x = c then int (length p) else rfind p c)"
proof -
  have "filter (\<lambda>i. (p @ [x]) ! i = c) (rev [0..<length p]) =
        filter (\<lambda>i. p ! i = c) (rev [0..<length p])"
    by (rule filter_cong) (auto simp: nth_append)
  then show ?thesis by (simp add: rfind_def)
qed

lemma rfind_bounds: "- 1 \<le> rfind p c \<and> rfind p c < int (length p)"
proof (induction p rule: rev_induct)
  case Nil
  then show ?case by (simp add: rfind_def)
next
  case (snoc x p)
  then show ?case by (simp add: rfind_snoc)
qed

lemma rfind_none: "rfind p c = - 1 \<Longrightarrow> c \<notin> set p"
proof (induction p rule: rev_induct)
  case Nil
  then show ?case by simp
next
  case (snoc x p)
  then show ?case by (auto simp: rfind_snoc split: if_splits)
qed

lemma rfind_last:
  "0 \<le> rfind p c \<Longrightarrow>
   p ! nat (rfind p c) = c \<and> c \<notin> set (drop (Suc (nat (rfind p c))) p)"
proof (induction p rule: rev_induct)
  case Nil
  then show ?case by (simp add: rfind_def)
next
  case (snoc x p)
  show ?case
  proof (cases "x = c")
    case True
    then show ?thesis by (simp add: rfind_snoc)
  next
    case False
    with snoc.prems have nn: "0 \<le> rfind p c" by (simp add: rfind_snoc)
    moreover have "nat (rfind p c) < length p" using rfind_bounds [of p c] nn by simp
    ultimately show ?thesis using snoc.IH False by (simp add: rfind_snoc nth_append)
  qed
qed

lemma splitext_loop_cases:
  "splitext_loop p a b = (take b p, drop b p) \<or> splitext_loop p a b = (p, [])"
  by (induction p a b rule: splitext_loop.induct) (subst (1 2) splitext_loop.simps, auto)

lemma splitext_cases:
  "splitext p = (p, []) \<or>
   (rfind p CHR ''/'' < rfind p CHR ''.'' \<and>
    splitext p = (take (nat (rfind p CHR ''.'')) p, drop (nat (rfind p CHR ''.'')) p))"
  using splitext_loop_cases [of p "nat (rfind p CHR ''/'' + 1)" "nat (rfind p CHR ''.'')"]
  by (auto simp: splitext_def Let_def)

lemma splitext_append: "fst (splitext p) @ snd (splitext p) = p"
  using splitext_cases [of p] by auto

lemma splitext_extension:
  "snd (splitext p) = [] \<or>
   (hd (snd (splitext p)) = CHR ''.'' \<and> CHR ''/'' \<notin> set (snd (splitext p))
      \<and> CHR ''.'' \<notin> set (tl (snd (splitext p))))"
proof (cases "splitext p = (p, [])")
  case True
  then show ?thesis by simp
next
  case False
  let ?d = "rfind p CHR ''.''" and ?s = "rfind p CHR ''/''"
  from False splitext_cases [of p] have lt: "?s < ?d"
    and ext: "snd (splitext p) = drop (nat ?d) p" by auto
  from lt rfind_bounds [of p "CHR ''/''"] have d0: "0 \<le> ?d" by simp
  with rfind_bounds [of p "CHR ''.''"] have dlen: "nat ?d < length p" by simp
  from rfind_last [OF d0] have dot: "p ! nat ?d = CHR ''.''"
    and nodot: "CHR ''.'' \<notin> set (drop (Suc (nat ?d)) p)" by auto
  have split: "drop (nat ?d) p = CHR ''.'' # drop (Suc (nat ?d)) p"
    using dlen dot by (metis Cons_nth_drop_Suc)
  have noslash: "CHR ''/'' \<notin> set (drop (Suc (nat ?d)) p)"
  proof (cases "0 \<le> ?s")
    case True
    from rfind_last [OF True] have "CHR ''/'' \<notin> set (drop (Suc (nat ?s)) p)" by simp
    moreover have "set (drop (Suc (nat ?d)) p) \<subseteq> set (drop (Suc (nat ?s)) p)"
      using lt True by (intro set_drop_subset_set_drop) simp
    ultimately show ?thesis by blast
  next
    case False
    with rfind_bounds [of p "CHR ''/''"] have "?s = - 1" by simp
    then have "CHR ''/'' \<notin> set p" by (rule rfind_none)
    then show ?thesis by (meson in_set_dropD)
  qed
  show ?thesis using ext split nodot noslash by simp
qed

lemma path_join_relative:
  "take 1 b \<noteq> ''/'' \<Longrightarrow> path_join ''uploads/movies/'' b = ''uploads/movies/'' @ b"
  by (simp add: path_join_def)

text \<open>
  C8. For a show with title \<open>t\<close> and an uploaded file name \<open>f\<close>, the path is
  \<open>uploads/movies/\<close> followed by the slug of \<open>t\<close>, a hyphen, the identifier drawn, and
  the extension of \<open>f\<close>. The extension is what \<open>os.path.splitext\<close> splits off the end of
  \<open>f\<close>: nothing, or the last dot of \<open>f\<close> and what follows it, with no slash in it. The
  slug is taken not to start with a slash (the framework's \<open>slugify\<close> yields letters,
  digits, hyphens and underscores only).
\<close>

theorem show_image_file_path_shape:
  assumes "take 1 (slugify (title inst)) \<noteq> ''/''"
  shows "show_image_file_path slugify uuid inst filename =
           ''uploads/movies/'' @ slugify (title inst) @ ''-'' @ uuid @
             snd (splitext filename)
       \<and> fst (splitext filename) @ snd (splitext filename) = filename
       \<and> (snd (splitext filename) = [] \<or>
            hd (snd (splitext filename)) = CHR ''.'' \<and>
            CHR ''/'' \<notin> set (snd (splitext filename)) \<and>
            CHR ''.'' \<notin> set (tl (snd (splitext filename))))"
proof -
  have "take 1 (slugify (title inst) @ ''-'' @ uuid @ snd (splitext filename)) \<noteq> ''/''"
    using assms by (cases "slugify (title inst)") auto
  then show ?thesis
    using splitext_extension [of filename]
    by (simp add: show_image_file_path_def Let_def path_join_relative splitext_append)
qed

lemma splitext_photo: "splitext ''photo.jpg'' = (''photo'', ''.jpg'')"
  by code_simp

theorem show_image_file_path_shape_witness:
  "take 1 (sample_slugify (title sample_show)) \<noteq> ''/''
   \<and> show_image_file_path sample_slugify ''3f2b8c1e-5d4a-4e6f-9a7b-0c1d2e3f4a5b''
       sample_show ''photo.jpg'' =
     ''uploads/movies/sample-show-3f2b8c1e-5d4a-4e6f-9a7b-0c1d2e3f4a5b.jpg''"
proof -
  have s: "sample_slugify (title sample_show) = ''sample-show''"
    by (simp add: sample_slugify_def sample_show_def)
  then have h: "take 1 (sample_slugify (title sample_show)) \<noteq> ''/''"
    by simp
  from show_image_file_path_shape [where slugify = sample_slugify
      and inst = sample_show and uuid = "''3f2b8c1e-5d4a-4e6f-9a7b-0c1d2e3f4a5b''"
      and filename = "''photo.jpg''", OF h] h
  show ?thesis by (simp add: splitext_photo s)
qed

end
